theory Spec2Isabelle
  imports Main
begin

text \<open>
  A shallow embedding of the two core modules of \<open>ct_secretsd\<close>: the controller of
  the proxy process (\<open>proxy_controller.py\<close>) and the secret storage with its two
  backends and their selector (\<open>storage.py\<close>).  Every method becomes a function
  that takes the object and the outside world (operating system, credential vault,
  file system) and returns its result together with the object and the world
  afterwards.  The coroutines of \<open>storage.py\<close> are run one at a time, each to its
  end; log output is left out.
\<close>

section \<open>Exceptions\<close>

text \<open>
  The Python exceptions the two modules can raise or catch.  A call that may raise
  returns a sum, with \<open>Inl\<close> carrying the exception.  \<open>KeyringError\<close> stands for
  the library's class and its subclasses (set, delete and init errors); \<open>OtherError\<close>
  is any other subclass of \<open>Exception\<close>.
\<close>

datatype exn =
    RuntimeError string
  | StorageError
  | OSError
  | FileNotFoundError
  | TimeoutExpired
  | KeyringError
  | InvalidToken
  | JSONDecodeError
  | ValueError
  | AttributeError
  | OtherError

section \<open>proxy\_controller.py\<close>

subsection \<open>The operating system as seen by the controller\<close>

text \<open>
  Time is counted in milliseconds.  A child is named by its pid.  The fields from
  \<open>popen_fails\<close> on are the environment: whether the executable can be spawned,
  when a TCP connect to a host and port succeeds, and how each child reacts to
  SIGTERM and SIGKILL.  \<open>exited\<close> holds the children whose exit \<open>poll()\<close> reports.
\<close>

record world =
  clock :: nat
  next_pid :: nat
  spawned :: "nat list"
  exited :: "nat set"
  popen_fails :: bool
  listening :: "string \<Rightarrow> nat \<Rightarrow> nat \<Rightarrow> bool"
  term_raises :: "nat \<Rightarrow> bool"
  exits_on_term :: "nat \<Rightarrow> bool"
  kill_raises :: "nat \<Rightarrow> bool"
  exits_on_kill :: "nat \<Rightarrow> bool"

text \<open>\<open>subprocess.Popen([...])\<close>: raises \<open>OSError\<close> or yields a new child.\<close>

definition Popen :: "world \<Rightarrow> exn + (nat \<times> world)" where
  "Popen w =
     (if popen_fails w then Inl OSError
      else Inr (next_pid w,
                w\<lparr>next_pid := Suc (next_pid w), spawned := next_pid w # spawned w\<rparr>))"

text \<open>\<open>Popen.poll() is not None\<close>.\<close>

definition exited_poll :: "nat \<Rightarrow> world \<Rightarrow> bool" where
  "exited_poll p w = (p \<in> exited w)"

text \<open>
  \<open>Popen.terminate()\<close> and \<open>Popen.kill()\<close>: nothing happens to a child that has
  exited; otherwise the signal is sent, which may raise.  The second component is
  the world afterwards, the first the exception raised, if any.
\<close>

definition terminate :: "nat \<Rightarrow> world \<Rightarrow> exn option \<times> world" where
  "terminate p w =
     (if p \<in> exited w then (None, w)
      else if term_raises w p then (Some OSError, w)
      else if exits_on_term w p then (None, w\<lparr>exited := insert p (exited w)\<rparr>)
      else (None, w))"

definition kill :: "nat \<Rightarrow> world \<Rightarrow> exn option \<times> world" where
  "kill p w =
     (if p \<in> exited w then (None, w)
      else if kill_raises w p then (Some OSError, w)
      else if exits_on_kill w p then (None, w\<lparr>exited := insert p (exited w)\<rparr>)
      else (None, w))"

text \<open>\<open>Popen.wait(timeout=t)\<close>: returns once the child has exited, else raises after \<open>t\<close>.\<close>

definition wait_proc :: "nat \<Rightarrow> nat \<Rightarrow> world \<Rightarrow> exn option \<times> world" where
  "wait_proc p t w =
     (if p \<in> exited w then (None, w)
      else (Some TimeoutExpired, w\<lparr>clock := clock w + t\<rparr>))"

subsection \<open>ProxyProcessInfo and ProxyController\<close>

record ProxyProcessInfo =
  pid :: nat
  port :: nat
  started_at :: nat

record ProxyController =
  self_proc :: "nat option"
  self_info :: "ProxyProcessInfo option"

definition init_controller :: ProxyController where
  "init_controller = \<lparr>self_proc = None, self_info = None\<rparr>"

definition is_running :: "ProxyController \<Rightarrow> world \<Rightarrow> bool" where
  "is_running c w =
     (case self_proc c of None \<Rightarrow> False | Some p \<Rightarrow> \<not> exited_poll p w)"

definition info :: "ProxyController \<Rightarrow> world \<Rightarrow> ProxyProcessInfo option" where
  "info c w = (if is_running c w then self_info c else None)"

text \<open>
  The loop of \<open>_wait_for_port\<close>: while the deadline has not passed, try to connect;
  a refused connect is followed by \<open>time.sleep(0.1)\<close>.  Creating the socket is
  taken to succeed, and the connect attempt itself to take no time.
\<close>

function wait_for_port_loop :: "world \<Rightarrow> string \<Rightarrow> nat \<Rightarrow> nat \<Rightarrow> bool \<times> world" where
  "wait_for_port_loop w host prt deadline =
     (if clock w < deadline then
        (if listening w host prt (clock w) then (True, w)
         else wait_for_port_loop (w\<lparr>clock := clock w + 100\<rparr>) host prt deadline)
      else (False, w))"
  by pat_completeness auto
termination
  by (relation "measure (\<lambda>(w, host, prt, deadline). deadline - clock w)") auto

declare wait_for_port_loop.simps [simp del]

definition wait_for_port :: "world \<Rightarrow> string \<Rightarrow> nat \<Rightarrow> nat \<Rightarrow> bool \<times> world" where
  "wait_for_port w host prt timeout = wait_for_port_loop w host prt (clock w + timeout)"

definition start_failed :: exn where
  "start_failed = RuntimeError ''Proxy failed to start or port did not open in time''"

text \<open>
  \<open>start\<close> returns what Python returns or raises, the controller and the world
  afterwards.  The first branch returns \<open>self._info\<close> as it is, which may be \<open>None\<close>.
  The environment handed to the child has no effect that the controller observes.
\<close>

definition start ::
  "ProxyController \<Rightarrow> world \<Rightarrow> (string \<times> string) list \<Rightarrow> nat
     \<Rightarrow> (exn + ProxyProcessInfo option) \<times> ProxyController \<times> world" where
  "start c w env prt =
     (if is_running c w then (Inr (self_info c), c, w)
      else
        (case Popen w of
           Inl e \<Rightarrow> (Inl e, c, w)
         | Inr (p, w1) \<Rightarrow>
             let c1 = c\<lparr>self_proc := Some p\<rparr>;
                 t0 = clock w1;
                 (ok, w2) = wait_for_port w1 ''127.0.0.1'' prt 15000
             in if \<not> ok then (Inl start_failed, c1, snd (terminate p w2))
                else
                  let i = \<lparr>pid = p, port = prt, started_at = t0\<rparr>
                  in (Inr (Some i), c1\<lparr>self_info := Some i\<rparr>, w2)))"

text \<open>
  \<open>stop\<close>: terminate and wait five seconds; on any exception kill, swallowing what
  that raises; the \<open>finally\<close> block polls, clears both fields and returns.
\<close>

definition stop :: "ProxyController \<Rightarrow> world \<Rightarrow> bool \<times> ProxyController \<times> world" where
  "stop c w =
     (case self_proc c of
        None \<Rightarrow> (True, c, w)
      | Some p \<Rightarrow>
          let (e1, w1) = terminate p w;
              (e2, w2) = (if e1 = None then wait_proc p 5000 w1 else (e1, w1));
              w3 = (if e2 = None then w2 else snd (kill p w2));
              stopped = exited_poll p w3
          in (stopped, c\<lparr>self_proc := None, self_info := None\<rparr>, w3))"

section \<open>storage.py\<close>

subsection \<open>Libraries: keyring, Fernet, json\<close>

text \<open>
  The OS credential vault behind the \<open>keyring\<close> module: a table from service and
  account to password, and the faults of the platform backend (\<open>kr_fault\<close> gives
  the exception a call raises, if any).  Deleting an entry that does not exist
  raises the library's \<open>PasswordDeleteError\<close>, a \<open>KeyringError\<close>; this is what
  the inner handler of \<open>KeyringStorage.delete_key\<close> is written for.
\<close>

datatype kr_op = SetPassword | GetPassword | DeletePassword

record vault =
  entries :: "string \<times> string \<rightharpoonup> string"
  kr_fault :: "kr_op \<Rightarrow> string \<Rightarrow> string \<Rightarrow> exn option"

definition set_password :: "vault \<Rightarrow> string \<Rightarrow> string \<Rightarrow> string \<Rightarrow> exn option \<times> vault" where
  "set_password v service account password =
     (case kr_fault v SetPassword service account of
        Some e \<Rightarrow> (Some e, v)
      | None \<Rightarrow> (None, v\<lparr>entries := (entries v)((service, account) \<mapsto> password)\<rparr>))"

definition get_password :: "vault \<Rightarrow> string \<Rightarrow> string \<Rightarrow> exn + string option" where
  "get_password v service account =
     (case kr_fault v GetPassword service account of
        Some e \<Rightarrow> Inl e
      | None \<Rightarrow> Inr (entries v (service, account)))"

definition delete_password :: "vault \<Rightarrow> string \<Rightarrow> string \<Rightarrow> exn option \<times> vault" where
  "delete_password v service account =
     (case kr_fault v DeletePassword service account of
        Some e \<Rightarrow> (Some e, v)
      | None \<Rightarrow>
          (case entries v (service, account) of
             None \<Rightarrow> (Some KeyringError, v)
           | Some _ \<Rightarrow> (None, v\<lparr>entries := (entries v)((service, account) := None)\<rparr>)))"

text \<open>
  What \<open>json.loads\<close> yields.  \<open>Fernet\<close> and \<open>json\<close> are not part of the repository:
  the functions the module calls are the fields of \<open>libs\<close>, and a property of
  theirs that a theorem needs is a hypothesis of that theorem.  \<open>fernet_encrypt k s\<close>
  is \<open>Fernet(k).encrypt(s.encode())\<close>, \<open>fernet_decrypt k c\<close> is
  \<open>Fernet(k).decrypt(c).decode()\<close>; both raise \<open>ValueError\<close> on a key that is not
  a Fernet key.  \<open>generate_key\<close> is the key \<open>Fernet.generate_key()\<close> draws.
  \<open>path_join d n\<close> is \<open>str(d / n)\<close> of \<open>pathlib\<close>, whose result depends on the
  platform and on the shape of \<open>n\<close> (an absolute \<open>n\<close> replaces \<open>d\<close>).
\<close>

datatype json =
    JNull
  | JBool bool
  | JNum int
  | JStr string
  | JArr "json list"
  | JObj "(string \<times> json) list"

record libs =
  generate_key :: string
  fernet_encrypt :: "string \<Rightarrow> string \<Rightarrow> exn + string"
  fernet_decrypt :: "string \<Rightarrow> string \<Rightarrow> exn + string"
  json_dumps :: "json \<Rightarrow> string"
  json_loads :: "string \<Rightarrow> exn + json"
  path_join :: "string \<Rightarrow> string \<Rightarrow> string"

text \<open>
  The file system: the bytes of each file, by path, and the faults of each
  operation on each path (missing permission, full disk, a directory in the way).
\<close>

datatype fs_op = OpMkdir | OpRead | OpWrite | OpChmod | OpRemove

record filesystem =
  files :: "string \<rightharpoonup> string"
  fs_fault :: "fs_op \<Rightarrow> string \<Rightarrow> exn option"

definition path_exists :: "filesystem \<Rightarrow> string \<Rightarrow> bool" where
  "path_exists fs path = (files fs path \<noteq> None)"

text \<open>\<open>open(path, 'rb').read()\<close>.\<close>

definition read_file :: "filesystem \<Rightarrow> string \<Rightarrow> exn + string" where
  "read_file fs path =
     (case fs_fault fs OpRead path of
        Some e \<Rightarrow> Inl e
      | None \<Rightarrow> (case files fs path of None \<Rightarrow> Inl FileNotFoundError | Some c \<Rightarrow> Inr c))"

text \<open>\<open>open(path, 'wb').write(data)\<close>.\<close>

definition write_file :: "filesystem \<Rightarrow> string \<Rightarrow> string \<Rightarrow> exn option \<times> filesystem" where
  "write_file fs path data =
     (case fs_fault fs OpWrite path of
        Some e \<Rightarrow> (Some e, fs)
      | None \<Rightarrow> (None, fs\<lparr>files := (files fs)(path \<mapsto> data)\<rparr>))"

definition chmod :: "filesystem \<Rightarrow> string \<Rightarrow> exn option" where
  "chmod fs path = fs_fault fs OpChmod path"

text \<open>\<open>os.remove(path)\<close>.\<close>

definition remove_file :: "filesystem \<Rightarrow> string \<Rightarrow> exn option \<times> filesystem" where
  "remove_file fs path =
     (case fs_fault fs OpRemove path of
        Some e \<Rightarrow> (Some e, fs)
      | None \<Rightarrow>
          (case files fs path of
             None \<Rightarrow> (Some FileNotFoundError, fs)
           | Some _ \<Rightarrow> (None, fs\<lparr>files := (files fs)(path := None)\<rparr>)))"

definition SERVICE_NAME :: string where
  "SERVICE_NAME = ''claude-throne''"

text \<open>The truth value of an \<open>Optional[Dict[str, str]]\<close>, and \<open>metadata or {}\<close>.\<close>

fun truthy :: "(string \<times> string) list option \<Rightarrow> bool" where
  "truthy None = False"
| "truthy (Some []) = False"
| "truthy (Some (x # xs)) = True"

fun or_empty :: "(string \<times> string) list option \<Rightarrow> (string \<times> string) list" where
  "or_empty None = []"
| "or_empty (Some m) = m"

definition dict_json :: "(string \<times> string) list \<Rightarrow> json" where
  "dict_json m = JObj (map (\<lambda>(k, v). (k, JStr v)) m)"

subsection \<open>KeyringStorage\<close>

record KeyringStorage =
  service_name :: string

definition KeyringStorage_init :: "string \<Rightarrow> KeyringStorage" where
  "KeyringStorage_init service = \<lparr>service_name = service\<rparr>"

definition get_account_name :: "string \<Rightarrow> string" where
  "get_account_name provider_id = provider_id @ ''-api-key''"

definition metadata_account :: "string \<Rightarrow> string" where
  "metadata_account provider_id = provider_id @ ''-metadata''"

text \<open>
  In each method every exception ends in \<open>return False\<close> (or \<open>return None\<close>): the
  first handler takes \<open>KeyringError\<close>, the second every other \<open>Exception\<close>.
\<close>

definition KeyringStorage_store_key ::
  "libs \<Rightarrow> KeyringStorage \<Rightarrow> vault \<Rightarrow> string \<Rightarrow> string \<Rightarrow> (string \<times> string) list option
     \<Rightarrow> bool \<times> vault" where
  "KeyringStorage_store_key L ks v provider_id api_key metadata =
     (let (e1, v1) =
            (if truthy metadata
             then set_password v (service_name ks) (metadata_account provider_id)
                    (json_dumps L (dict_json (or_empty metadata)))
             else (None, v))
      in case e1 of
           Some e \<Rightarrow> (False, v1)
         | None \<Rightarrow>
             (case set_password v1 (service_name ks) (get_account_name provider_id) api_key of
                (Some e, v2) \<Rightarrow> (False, v2)
              | (None, v2) \<Rightarrow> (True, v2)))"

definition KeyringStorage_get_key :: "KeyringStorage \<Rightarrow> vault \<Rightarrow> string \<Rightarrow> string option" where
  "KeyringStorage_get_key ks v provider_id =
     (case get_password v (service_name ks) (get_account_name provider_id) of
        Inl e \<Rightarrow> None
      | Inr key \<Rightarrow> key)"

definition KeyringStorage_has_key :: "KeyringStorage \<Rightarrow> vault \<Rightarrow> string \<Rightarrow> bool" where
  "KeyringStorage_has_key ks v provider_id = (KeyringStorage_get_key ks v provider_id \<noteq> None)"

text \<open>
  \<open>delete_key\<close>: the metadata entry goes first, and only a \<open>KeyringError\<close> from
  that call is passed over; then the entry of the key itself.
\<close>

definition KeyringStorage_delete_key :: "KeyringStorage \<Rightarrow> vault \<Rightarrow> string \<Rightarrow> bool \<times> vault" where
  "KeyringStorage_delete_key ks v provider_id =
     (case delete_password v (service_name ks) (metadata_account provider_id) of
        (e1, v1) \<Rightarrow>
          if e1 \<noteq> None \<and> e1 \<noteq> Some KeyringError then (False, v1)
          else
            (case delete_password v1 (service_name ks) (get_account_name provider_id) of
               (Some e, v2) \<Rightarrow> (False, v2)
             | (None, v2) \<Rightarrow> (True, v2)))"

subsection \<open>EncryptedFileStorage\<close>

record EncryptedFileStorage =
  storage_dir :: string
  key_file :: string
  encryption_key :: string

text \<open>
  \<open>_get_or_create_key\<close>: an existing key file is read and its bytes returned as they
  are; otherwise a new key is written.  Whatever is raised becomes \<open>StorageError\<close>.
\<close>

definition get_or_create_key :: "libs \<Rightarrow> filesystem \<Rightarrow> string \<Rightarrow> (exn + string) \<times> filesystem" where
  "get_or_create_key L fs kf =
     (if path_exists fs kf then
        (case read_file fs kf of
           Inl e \<Rightarrow> (Inl StorageError, fs)
         | Inr bytes \<Rightarrow> (Inr bytes, fs))
      else
        (case write_file fs kf (generate_key L) of
           (Some e, fs1) \<Rightarrow> (Inl StorageError, fs1)
         | (None, fs1) \<Rightarrow>
             (case chmod fs1 kf of
                Some e \<Rightarrow> (Inl StorageError, fs1)
              | None \<Rightarrow> (Inr (generate_key L), fs1))))"

text \<open>
  \<open>__init__\<close>: \<open>mkdir(mode=0o700, exist_ok=True)\<close> stands outside the \<open>try\<close>, so
  what it raises leaves the constructor unchanged.  The directory is named by its
  path as \<open>expanduser\<close> leaves it.
\<close>

definition EncryptedFileStorage_init ::
  "libs \<Rightarrow> filesystem \<Rightarrow> string \<Rightarrow> (exn + EncryptedFileStorage) \<times> filesystem" where
  "EncryptedFileStorage_init L fs dir =
     (case fs_fault fs OpMkdir dir of
        Some e \<Rightarrow> (Inl e, fs)
      | None \<Rightarrow>
          (case get_or_create_key L fs (path_join L dir ''.encryption_key'') of
             (Inl e, fs1) \<Rightarrow> (Inl e, fs1)
           | (Inr k, fs1) \<Rightarrow>
               (Inr \<lparr>storage_dir = dir, key_file = path_join L dir ''.encryption_key'',
                     encryption_key = k\<rparr>, fs1)))"

definition get_key_file :: "libs \<Rightarrow> EncryptedFileStorage \<Rightarrow> string \<Rightarrow> string" where
  "get_key_file L st provider_id = path_join L (storage_dir st) (provider_id @ ''.key'')"

definition encrypt_data :: "libs \<Rightarrow> EncryptedFileStorage \<Rightarrow> string \<Rightarrow> exn + string" where
  "encrypt_data L st data = fernet_encrypt L (encryption_key st) data"

definition decrypt_data :: "libs \<Rightarrow> EncryptedFileStorage \<Rightarrow> string \<Rightarrow> exn + string" where
  "decrypt_data L st encrypted_data = fernet_decrypt L (encryption_key st) encrypted_data"

definition record_json :: "string \<Rightarrow> (string \<times> string) list option \<Rightarrow> json" where
  "record_json api_key metadata =
     JObj [(''api_key'', JStr api_key), (''metadata'', dict_json (or_empty metadata))]"

definition EncryptedFileStorage_store_key ::
  "libs \<Rightarrow> EncryptedFileStorage \<Rightarrow> filesystem \<Rightarrow> string \<Rightarrow> string
     \<Rightarrow> (string \<times> string) list option \<Rightarrow> bool \<times> filesystem" where
  "EncryptedFileStorage_store_key L st fs provider_id api_key metadata =
     (case encrypt_data L st (json_dumps L (record_json api_key metadata)) of
        Inl e \<Rightarrow> (False, fs)
      | Inr encrypted_data \<Rightarrow>
          (case write_file fs (get_key_file L st provider_id) encrypted_data of
             (Some e, fs1) \<Rightarrow> (False, fs1)
           | (None, fs1) \<Rightarrow>
               (case chmod fs1 (get_key_file L st provider_id) of
                  Some e \<Rightarrow> (False, fs1)
                | None \<Rightarrow> (True, fs1))))"

text \<open>
  \<open>data.get("api_key")\<close>: only a dict has \<open>get\<close>; a missing key and a JSON null
  both give Python's \<open>None\<close>.  The pairs of a \<open>JObj\<close> stand for a dict, so their
  keys are taken to be distinct.
\<close>

definition dict_get :: "json \<Rightarrow> string \<Rightarrow> exn + json option" where
  "dict_get data k =
     (case data of
        JObj kvs \<Rightarrow>
          (case map_of kvs k of
             None \<Rightarrow> Inr None
           | Some JNull \<Rightarrow> Inr None
           | Some val \<Rightarrow> Inr (Some val))
      | _ \<Rightarrow> Inl AttributeError)"

text \<open>The body of the \<open>try\<close> block of \<open>get_key\<close>.\<close>

definition get_key_try :: "libs \<Rightarrow> EncryptedFileStorage \<Rightarrow> filesystem \<Rightarrow> string \<Rightarrow> exn + json option" where
  "get_key_try L st fs provider_id =
     (if \<not> path_exists fs (get_key_file L st provider_id) then Inr None
      else
        (case read_file fs (get_key_file L st provider_id) of
           Inl e \<Rightarrow> Inl e
         | Inr encrypted_data \<Rightarrow>
             (case decrypt_data L st encrypted_data of
                Inl e \<Rightarrow> Inl e
              | Inr decrypted_json \<Rightarrow>
                  (case json_loads L decrypted_json of
                     Inl e \<Rightarrow> Inl e
                   | Inr data \<Rightarrow> dict_get data ''api_key''))))"

text \<open>
  \<open>get_key\<close> with its two handlers: the first names three exceptions, the second
  takes every other \<open>Exception\<close>.  The result is kept as a sum so that "does not
  raise" is a statement about it.
\<close>

definition EncryptedFileStorage_get_key ::
  "libs \<Rightarrow> EncryptedFileStorage \<Rightarrow> filesystem \<Rightarrow> string \<Rightarrow> exn + json option" where
  "EncryptedFileStorage_get_key L st fs provider_id =
     (case get_key_try L st fs provider_id of
        Inr r \<Rightarrow> Inr r
      | Inl e \<Rightarrow>
          if e = FileNotFoundError \<or> e = InvalidToken \<or> e = JSONDecodeError then Inr None
          else Inr None)"


definition EncryptedFileStorage_delete_key ::
  "libs \<Rightarrow> EncryptedFileStorage \<Rightarrow> filesystem \<Rightarrow> string \<Rightarrow> bool \<times> filesystem" where
  "EncryptedFileStorage_delete_key L st fs provider_id =
     (if path_exists fs (get_key_file L st provider_id) then
        (case remove_file fs (get_key_file L st provider_id) of
           (Some e, fs1) \<Rightarrow> (False, fs1)
         | (None, fs1) \<Rightarrow> (True, fs1))
      else (True, fs))"

subsection \<open>get\_secret\_storage\<close>

datatype SecretStorage = Keyring KeyringStorage | EncryptedFile EncryptedFileStorage

text \<open>
  The state of the module is the global \<open>_storage_instance\<close>; the call returns the
  backend or the exception, the global, the vault and the file system afterwards.
  \<open>use_file_storage\<close> is the assignment \<open>_storage_instance = EncryptedFileStorage()\<close>,
  which the source has twice; an exception of the constructor leaves the global as
  it was and leaves the function.
\<close>

definition use_file_storage ::
  "libs \<Rightarrow> vault \<Rightarrow> filesystem
     \<Rightarrow> (exn + SecretStorage) \<times> SecretStorage option \<times> vault \<times> filesystem" where
  "use_file_storage L v fs =
     (case EncryptedFileStorage_init L fs ''~/.claude-throne'' of
        (Inl e, fs1) \<Rightarrow> (Inl e, None, v, fs1)
      | (Inr st, fs1) \<Rightarrow> (Inr (EncryptedFile st), Some (EncryptedFile st), v, fs1))"

definition get_secret_storage ::
  "libs \<Rightarrow> SecretStorage option \<Rightarrow> vault \<Rightarrow> filesystem \<Rightarrow> bool
     \<Rightarrow> (exn + SecretStorage) \<times> SecretStorage option \<times> vault \<times> filesystem" where
  "get_secret_storage L storage_instance v fs prefer_keyring =
     (case storage_instance of
        Some s \<Rightarrow> (Inr s, storage_instance, v, fs)
      | None \<Rightarrow>
          if prefer_keyring then
            (case set_password v ''claude-throne-test'' ''test-account'' ''test'' of
               (Some e, v1) \<Rightarrow> use_file_storage L v1 fs
             | (None, v1) \<Rightarrow>
                 (case delete_password v1 ''claude-throne-test'' ''test-account'' of
                    (Some e, v2) \<Rightarrow> use_file_storage L v2 fs
                  | (None, v2) \<Rightarrow>
                      (Inr (Keyring (KeyringStorage_init SERVICE_NAME)),
                       Some (Keyring (KeyringStorage_init SERVICE_NAME)), v2, fs)))
          else use_file_storage L v fs)"

section \<open>Invariants, library properties and sample inputs\<close>

text \<open>
  What every controller built by \<open>init_controller\<close>, \<open>start\<close> and \<open>stop\<close> satisfies:
  \<open>_info\<close> is only ever set while \<open>_proc\<close> is set.
\<close>

definition ctrl_inv :: "ProxyController \<Rightarrow> bool" where
  "ctrl_inv c = (self_proc c = None \<longrightarrow> self_info c = None)"

text \<open>The children that were spawned and have not exited.\<close>

definition live_children :: "world \<Rightarrow> nat set" where
  "live_children w = {p \<in> set (spawned w). p \<notin> exited w}"

text \<open>Every child that is still alive is the one the controller holds.\<close>

definition one_child :: "ProxyController \<Rightarrow> world \<Rightarrow> bool" where
  "one_child c w = (\<forall>p \<in> set (spawned w). p \<notin> exited w \<longrightarrow> self_proc c = Some p)"

text \<open>
  A run of the controller: calls of \<open>start\<close> and \<open>stop\<close>, and children that exit
  in between.  The first component of the result tells whether every \<open>stop\<close> of
  the run returned true.
\<close>

datatype call = Start "(string \<times> string) list" nat | Stop | ChildExits nat

fun run_calls :: "ProxyController \<Rightarrow> world \<Rightarrow> call list \<Rightarrow> bool \<times> ProxyController \<times> world" where
  "run_calls c w [] = (True, c, w)"
| "run_calls c w (Start env prt # cs) =
     (case start c w env prt of (r, c1, w1) \<Rightarrow> run_calls c1 w1 cs)"
| "run_calls c w (Stop # cs) =
     (case stop c w of
        (b, c1, w1) \<Rightarrow> (case run_calls c1 w1 cs of (ok, c2, w2) \<Rightarrow> (b \<and> ok, c2, w2)))"
| "run_calls c w (ChildExits p # cs) = run_calls c (w\<lparr>exited := insert p (exited w)\<rparr>) cs"

text \<open>
  Properties of the libraries at one argument: Fernet decrypts what it encrypted,
  \<open>json.loads\<close> reads back what \<open>json.dumps\<close> wrote.
\<close>

definition fernet_inverts :: "libs \<Rightarrow> string \<Rightarrow> string \<Rightarrow> bool" where
  "fernet_inverts L k s =
     (case fernet_encrypt L k s of Inl e \<Rightarrow> True | Inr c \<Rightarrow> fernet_decrypt L k c = Inr s)"

definition json_inverts :: "libs \<Rightarrow> json \<Rightarrow> bool" where
  "json_inverts L j = (json_loads L (json_dumps L j) = Inr j)"

text \<open>
  The bytes \<open>c\<close> are corrupt for the store \<open>st\<close>: Fernet rejects them under the
  store's key, or the plaintext is not JSON.
\<close>

definition undecodable :: "libs \<Rightarrow> EncryptedFileStorage \<Rightarrow> string \<Rightarrow> bool" where
  "undecodable L st c =
     (case decrypt_data L st c of
        Inl e \<Rightarrow> True
      | Inr s \<Rightarrow> (case json_loads L s of Inl e \<Rightarrow> True | Inr d \<Rightarrow> False))"

text \<open>The probe of \<open>get_secret_storage\<close> raises: in \<open>set_password\<close> or in \<open>delete_password\<close>.\<close>

definition probe_fails :: "vault \<Rightarrow> bool" where
  "probe_fails v =
     (case set_password v ''claude-throne-test'' ''test-account'' ''test'' of
        (Some e, v1) \<Rightarrow> True
      | (None, v1) \<Rightarrow> fst (delete_password v1 ''claude-throne-test'' ''test-account'') \<noteq> None)"

text \<open>
  Sample inputs.  In \<open>obedient_world\<close> the child listens at once and exits on the
  first signal; in \<open>deaf_world\<close> nothing ever listens and SIGTERM is ignored; in
  \<open>stubborn_world\<close> the child listens at once and is still alive when polled after
  either signal.
\<close>

definition obedient_world :: world where
  "obedient_world =
     \<lparr>clock = 0, next_pid = 1, spawned = [], exited = {}, popen_fails = False,
      listening = (\<lambda>h p t. True), term_raises = (\<lambda>p. False), exits_on_term = (\<lambda>p. True),
      kill_raises = (\<lambda>p. False), exits_on_kill = (\<lambda>p. True)\<rparr>"

definition deaf_world :: world where
  "deaf_world = obedient_world\<lparr>listening := (\<lambda>h p t. False), exits_on_term := (\<lambda>p. False)\<rparr>"

definition stubborn_world :: world where
  "stubborn_world = obedient_world\<lparr>exits_on_term := (\<lambda>p. False), exits_on_kill := (\<lambda>p. False)\<rparr>"

definition empty_vault :: vault where
  "empty_vault = \<lparr>entries = Map.empty, kr_fault = (\<lambda>op service account. None)\<rparr>"

definition broken_vault :: vault where
  "broken_vault = \<lparr>entries = Map.empty, kr_fault = (\<lambda>op service account. Some KeyringError)\<rparr>"

definition empty_fs :: filesystem where
  "empty_fs = \<lparr>files = Map.empty, fs_fault = (\<lambda>op path. None)\<rparr>"

definition demo_record :: json where
  "demo_record = record_json ''sk-1'' (Some [(''org'', ''acme'')])"

text \<open>
  A small stand-in for the libraries: the only key is \<open>K\<close>, a token is the key
  followed by the plaintext, the serialiser knows three texts, and paths are joined
  by a slash.
\<close>

definition demo_libs :: libs where
  "demo_libs =
     \<lparr>generate_key = ''K'',
      fernet_encrypt = (\<lambda>k s. if k = ''K'' then Inr (k @ s) else Inl ValueError),
      fernet_decrypt = (\<lambda>k c. if k \<noteq> ''K'' then Inl ValueError
                               else if take 1 c = k then Inr (drop 1 c) else Inl InvalidToken),
      json_dumps = (\<lambda>j. if j = demo_record then ''R'' else if j = dict_json [] then ''{}'' else ''M''),
      json_loads = (\<lambda>s. if s = ''R'' then Inr demo_record else Inl JSONDecodeError),
      path_join = (\<lambda>d n. d @ ''/'' @ n)\<rparr>"

text \<open>
  As \<open>demo_libs\<close>, but decrypting passes over newlines in the token, as base64
  decoding does.
\<close>

definition lenient_libs :: libs where
  "lenient_libs =
     demo_libs\<lparr>fernet_decrypt :=
       (\<lambda>k c. fernet_decrypt demo_libs k (filter (\<lambda>x. x \<noteq> CHR 0x0A) c))\<rparr>"

text \<open>A storage directory whose key file exists and cannot be read.\<close>

definition locked_fs :: filesystem where
  "locked_fs =
     \<lparr>files = [''~/.claude-throne/.encryption_key'' \<mapsto> ''K''],
      fs_fault = (\<lambda>op path. if op = OpRead then Some OSError else None)\<rparr>"

definition demo_storage :: EncryptedFileStorage where
  "demo_storage =
     \<lparr>storage_dir = ''~/.claude-throne'', key_file = ''~/.claude-throne/.encryption_key'',
      encryption_key = ''K''\<rparr>"

section \<open>Properties of the process controller\<close>

subsection \<open>The polling loop\<close>

lemma wait_loop_only_clock:
  "wait_for_port_loop w h p d = (ok, w') \<Longrightarrow> w' = w\<lparr>clock := clock w'\<rparr>"
proof (induction w h p d rule: wait_for_port_loop.induct)
  case (1 w host prt deadline)
  show ?case
  proof (cases "clock w < deadline \<and> \<not> listening w host prt (clock w)")
    case True
    with 1 have "wait_for_port_loop (w\<lparr>clock := clock w + 100\<rparr>) host prt deadline = (ok, w')"
      by (simp add: wait_for_port_loop.simps[of w])
    with 1 True have "w' = w\<lparr>clock := clock w + 100\<rparr>\<lparr>clock := clock w'\<rparr>"
      by blast
    then show ?thesis by simp
  next
    case False
    with 1(2) show ?thesis
      by (auto simp: wait_for_port_loop.simps[of w] split: if_splits)
  qed
qed

lemma wait_loop_never:
  "\<forall>t. clock w \<le> t \<and> t < d \<longrightarrow> \<not> listening w h p t \<Longrightarrow>
     fst (wait_for_port_loop w h p d) = False"
proof (induction w h p d rule: wait_for_port_loop.induct)
  case (1 w host prt deadline)
  show ?case
  proof (cases "clock w < deadline")
    case True
    with 1(2) have nl: "\<not> listening w host prt (clock w)" by simp
    have "\<forall>t. clock (w\<lparr>clock := clock w + 100\<rparr>) \<le> t \<and> t < deadline
             \<longrightarrow> \<not> listening (w\<lparr>clock := clock w + 100\<rparr>) host prt t"
      using 1(2) by simp
    with 1(1) True nl
    have "fst (wait_for_port_loop (w\<lparr>clock := clock w + 100\<rparr>) host prt deadline) = False"
      by blast
    with True nl show ?thesis by (simp add: wait_for_port_loop.simps[of w])
  next
    case False
    then show ?thesis by (simp add: wait_for_port_loop.simps[of w])
  qed
qed

lemma wait_for_port_fields:
  assumes "wait_for_port w h p t = (ok, w')"
  shows "spawned w' = spawned w" and "exited w' = exited w"
    and "exits_on_term w' = exits_on_term w" and "term_raises w' = term_raises w"
proof -
  from assms have eq: "w' = w\<lparr>clock := clock w'\<rparr>"
    unfolding wait_for_port_def by (rule wait_loop_only_clock)
  show "spawned w' = spawned w" using arg_cong[OF eq, of spawned] by simp
  show "exited w' = exited w" using arg_cong[OF eq, of exited] by simp
  show "exits_on_term w' = exits_on_term w" using arg_cong[OF eq, of exits_on_term] by simp
  show "term_raises w' = term_raises w" using arg_cong[OF eq, of term_raises] by simp
qed

lemma terminate_frame:
  "spawned (snd (terminate p w)) = spawned w \<and> exited w \<subseteq> exited (snd (terminate p w))"
  by (auto simp: terminate_def)

subsection \<open>The controller's invariants\<close>

lemma ctrl_inv_init: "ctrl_inv init_controller"
  by (simp add: ctrl_inv_def init_controller_def)

lemma start_ctrl_inv: "ctrl_inv c \<Longrightarrow> start c w env prt = (r, c', w') \<Longrightarrow> ctrl_inv c'"
  by (auto simp: start_def ctrl_inv_def Let_def split: if_splits sum.splits prod.splits)

lemma stop_ctrl_inv: "stop c w = (b, c', w') \<Longrightarrow> ctrl_inv c \<Longrightarrow> ctrl_inv c'"
  by (auto simp: stop_def ctrl_inv_def Let_def split: option.splits prod.splits)

lemma start_returns_retained: "start c w env prt = (Inr r, c', w') \<Longrightarrow> self_info c' = r"
  by (auto simp: start_def Let_def split: if_splits sum.splits prod.splits)

lemma one_child_init: "spawned w = [] \<Longrightarrow> one_child c w"
  by (simp add: one_child_def)

lemma start_one_child:
  assumes inv: "one_child c w" and s: "start c w env prt = (r, c', w')"
  shows "one_child c' w'"
proof (cases "is_running c w")
  case True
  with s inv show ?thesis by (simp add: start_def)
next
  case nr: False
  have dead: "\<forall>q \<in> set (spawned w). q \<in> exited w"
    using inv nr by (auto simp: one_child_def is_running_def exited_poll_def split: option.splits)
  show ?thesis
  proof (cases "popen_fails w")
    case True
    with s nr inv show ?thesis by (simp add: start_def Popen_def)
  next
    case False
    let ?p = "next_pid w"
    let ?w1 = "w\<lparr>next_pid := Suc ?p, spawned := ?p # spawned w\<rparr>"
    obtain ok w2 where wf: "wait_for_port ?w1 ''127.0.0.1'' prt 15000 = (ok, w2)"
      by (cases "wait_for_port ?w1 ''127.0.0.1'' prt 15000")
    have sp2: "spawned w2 = ?p # spawned w" and ex2: "exited w2 = exited w"
      using wait_for_port_fields(1,2)[OF wf] by simp_all
    have pc: "self_proc c' = Some ?p" and w': "w' = w2 \<or> w' = snd (terminate ?p w2)"
      using s nr False wf by (auto simp: start_def Popen_def Let_def split: if_splits)
    from w' have "spawned w' = spawned w2 \<and> exited w2 \<subseteq> exited w'"
      using terminate_frame[of ?p w2] by auto
    with sp2 ex2 dead pc show ?thesis by (auto simp: one_child_def)
  qed
qed

text \<open>\<open>stop\<close> keeps the invariant when it reports the child as exited.\<close>

lemma stop_one_child:
  "one_child c w \<Longrightarrow> stop c w = (True, c', w') \<Longrightarrow> one_child c' w'"
  by (auto simp: stop_def one_child_def exited_poll_def terminate_def wait_proc_def kill_def Let_def
           split: option.splits prod.splits if_splits)

subsection \<open>stop\<close>

text \<open>
  C8: on every path \<open>stop\<close> leaves the controller Idle: the process handle and the
  info are both absent afterwards, \<open>is_running\<close> is false and \<open>info\<close> is absent.
  It returns true exactly when there was no process or the final poll found the
  process exited.  With no process held, \<open>stop\<close> returns true and changes neither
  the controller nor the world.
\<close>

theorem stop_clears:
  assumes "ctrl_inv c"
  shows "case stop c w of
           (b, c', w') \<Rightarrow>
             self_proc c' = None \<and> self_info c' = None
             \<and> \<not> is_running c' w' \<and> info c' w' = None
             \<and> b = (case self_proc c of None \<Rightarrow> True | Some p \<Rightarrow> exited_poll p w')
             \<and> (self_proc c = None \<longrightarrow> b \<and> c' = c \<and> w' = w)"
  using assms
  by (auto simp: stop_def ctrl_inv_def is_running_def info_def exited_poll_def Let_def
           split: prod.splits option.splits)

theorem stop_clears_witness:
  "ctrl_inv \<lparr>self_proc = Some 1, self_info = Some \<lparr>pid = 1, port = 8080, started_at = 0\<rparr>\<rparr> \<and>
   stop \<lparr>self_proc = Some 1, self_info = Some \<lparr>pid = 1, port = 8080, started_at = 0\<rparr>\<rparr>
        (obedient_world\<lparr>spawned := [1]\<rparr>)
     = (True, init_controller, obedient_world\<lparr>spawned := [1], exited := {1}\<rparr>)"
proof -
  let ?c = "\<lparr>self_proc = Some 1, self_info = Some \<lparr>pid = 1, port = 8080, started_at = 0\<rparr>\<rparr>"
  have h: "ctrl_inv ?c" by (simp add: ctrl_inv_def)
  have w: "snd (snd (stop ?c (obedient_world\<lparr>spawned := [1]\<rparr>)))
             = obedient_world\<lparr>spawned := [1], exited := {1}\<rparr>"
    by (simp add: stop_def terminate_def wait_proc_def obedient_world_def Let_def)
  from stop_clears[OF h, of "obedient_world\<lparr>spawned := [1]\<rparr>"] w h show ?thesis
    by (auto simp: init_controller_def exited_poll_def split: prod.splits)
qed

subsection \<open>start while Running\<close>

lemma one_child_card: "one_child c w \<Longrightarrow> card (live_children w) \<le> 1"
proof -
  assume oc: "one_child c w"
  have "live_children w \<subseteq> {p. self_proc c = Some p}"
    using oc by (auto simp: live_children_def one_child_def)
  moreover have "{p. self_proc c = Some p} \<subseteq> {the (self_proc c)}" by auto
  ultimately have "live_children w \<subseteq> {the (self_proc c)}" by blast
  then have "card (live_children w) \<le> card {the (self_proc c)}"
    by (intro card_mono) auto
  then show ?thesis by simp
qed

lemma child_exits_one_child:
  "one_child c w \<Longrightarrow> one_child c (w\<lparr>exited := insert p (exited w)\<rparr>)"
  by (auto simp: one_child_def)

lemma run_calls_one_child:
  "one_child c w \<Longrightarrow> run_calls c w cs = (True, c', w') \<Longrightarrow> one_child c' w'"
proof (induction cs arbitrary: c w)
  case Nil
  then show ?case by simp
next
  case (Cons x cs)
  show ?case
  proof (cases x)
    case (Start env prt)
    obtain r c1 w1 where s: "start c w env prt = (r, c1, w1)"
      by (cases "start c w env prt") auto
    from Cons.prems(1) s have "one_child c1 w1" by (rule start_one_child)
    moreover from Cons.prems(2) Start s have "run_calls c1 w1 cs = (True, c', w')" by simp
    ultimately show ?thesis by (rule Cons.IH)
  next
    case Stop
    obtain b c1 w1 where s: "stop c w = (b, c1, w1)"
      by (cases "stop c w") auto
    obtain ok c2 w2 where r: "run_calls c1 w1 cs = (ok, c2, w2)"
      by (cases "run_calls c1 w1 cs") auto
    from Cons.prems(2) Stop s r have b: "b" and rest: "run_calls c1 w1 cs = (True, c', w')"
      by auto
    from Cons.prems(1) s b have "one_child c1 w1" by (auto intro: stop_one_child)
    then show ?thesis using rest by (rule Cons.IH)
  next
    case (ChildExits p)
    from Cons.prems(1) have "one_child c (w\<lparr>exited := insert p (exited w)\<rparr>)"
      by (rule child_exits_one_child)
    moreover from Cons.prems(2) ChildExits
    have "run_calls c (w\<lparr>exited := insert p (exited w)\<rparr>) cs = (True, c', w')" by simp
    ultimately show ?thesis by (rule Cons.IH)
  qed
qed

text \<open>
  C6, as the code has it.  When a call of \<open>start\<close> has returned and the controller
  is Running at the next call, in whatever world, the second \<open>start\<close> returns the
  same value as the first and changes neither the controller nor the world, so it
  spawns nothing.  In every run of \<open>start\<close> and \<open>stop\<close> calls on a fresh controller,
  with children exiting in between, in which every \<open>stop\<close> returned true, at most
  one child is alive at the end.
\<close>

theorem start_while_running:
  "(start c0 w0 env prt = (Inr r, c1, w1) \<and> is_running c1 w2
      \<longrightarrow> start c1 w2 env2 prt2 = (Inr r, c1, w2))
   \<and> (spawned w = [] \<and> run_calls init_controller w cs = (True, c, w')
      \<longrightarrow> card (live_children w') \<le> 1)"
proof (intro conjI impI)
  assume a: "start c0 w0 env prt = (Inr r, c1, w1) \<and> is_running c1 w2"
  then have "self_info c1 = r" by (auto dest: start_returns_retained)
  with a show "start c1 w2 env2 prt2 = (Inr r, c1, w2)" by (simp add: start_def)
next
  assume a: "spawned w = [] \<and> run_calls init_controller w cs = (True, c, w')"
  then have "one_child init_controller w" by (simp add: one_child_init)
  with a have "one_child c w'" by (auto dest: run_calls_one_child)
  then show "card (live_children w') \<le> 1" by (rule one_child_card)
qed

theorem start_while_running_witness:
  "start init_controller obedient_world [] 8080 =
     (Inr (Some \<lparr>pid = 1, port = 8080, started_at = 0\<rparr>),
      \<lparr>self_proc = Some 1, self_info = Some \<lparr>pid = 1, port = 8080, started_at = 0\<rparr>\<rparr>,
      obedient_world\<lparr>next_pid := 2, spawned := [1]\<rparr>)
   \<and> is_running \<lparr>self_proc = Some 1, self_info = Some \<lparr>pid = 1, port = 8080, started_at = 0\<rparr>\<rparr>
        (obedient_world\<lparr>next_pid := 2, spawned := [1]\<rparr>)
   \<and> start \<lparr>self_proc = Some 1, self_info = Some \<lparr>pid = 1, port = 8080, started_at = 0\<rparr>\<rparr>
        (obedient_world\<lparr>next_pid := 2, spawned := [1]\<rparr>) [(''PORT'', ''9090'')] 9090
      = (Inr (Some \<lparr>pid = 1, port = 8080, started_at = 0\<rparr>),
         \<lparr>self_proc = Some 1, self_info = Some \<lparr>pid = 1, port = 8080, started_at = 0\<rparr>\<rparr>,
         obedient_world\<lparr>next_pid := 2, spawned := [1]\<rparr>)
   \<and> spawned obedient_world = []
   \<and> run_calls init_controller obedient_world [Start [] 8080, Start [] 9090, Stop, Start [] 8080]
      = (True,
         \<lparr>self_proc = Some 2, self_info = Some \<lparr>pid = 2, port = 8080, started_at = 0\<rparr>\<rparr>,
         obedient_world\<lparr>next_pid := 3, spawned := [2, 1], exited := {1}\<rparr>)
   \<and> card (live_children (obedient_world\<lparr>next_pid := 3, spawned := [2, 1], exited := {1}\<rparr>)) \<le> 1"
proof -
  let ?i = "\<lparr>pid = 1, port = 8080, started_at = 0\<rparr>"
  let ?c1 = "\<lparr>self_proc = Some 1, self_info = Some ?i\<rparr>"
  let ?w1 = "obedient_world\<lparr>next_pid := 2, spawned := [1]\<rparr>"
  let ?c3 = "\<lparr>self_proc = Some 2, self_info = Some \<lparr>pid = 2, port = 8080, started_at = 0\<rparr>\<rparr>"
  let ?w3 = "obedient_world\<lparr>next_pid := 3, spawned := [2, 1], exited := {1}\<rparr>"
  have first: "start init_controller obedient_world [] 8080 = (Inr (Some ?i), ?c1, ?w1)"
    by (simp add: start_def is_running_def init_controller_def Popen_def wait_for_port_def
          wait_for_port_loop.simps obedient_world_def Let_def numeral_2_eq_2)
  have run: "is_running ?c1 ?w1"
    by (simp add: is_running_def exited_poll_def obedient_world_def)
  have second: "start ?c1 ?w1 [] 9090 = (Inr (Some ?i), ?c1, ?w1)"
    using run by (simp add: start_def)
  have stopped: "stop ?c1 ?w1 = (True, init_controller, ?w1\<lparr>exited := {1}\<rparr>)"
    by (simp add: stop_def terminate_def wait_proc_def exited_poll_def obedient_world_def Let_def
          init_controller_def)
  have third: "start init_controller (?w1\<lparr>exited := {1}\<rparr>) [] 8080 = (Inr (Some \<lparr>pid = 2, port = 8080, started_at = 0\<rparr>), ?c3, ?w3)"
    by (simp add: start_def is_running_def init_controller_def Popen_def wait_for_port_def
          wait_for_port_loop.simps obedient_world_def Let_def numeral_2_eq_2 numeral_3_eq_3)
  have sp: "spawned obedient_world = []" by (simp add: obedient_world_def)
  have rc: "run_calls init_controller obedient_world [Start [] 8080, Start [] 9090, Stop, Start [] 8080]
              = (True, ?c3, ?w3)"
    by (simp only: run_calls.simps first second stopped third prod.case simp_thms)
  from start_while_running[of init_controller obedient_world "[]" 8080 "Some ?i" ?c1 ?w1 ?w1
         "[(''PORT'', ''9090'')]" 9090 obedient_world
         "[Start [] 8080, Start [] 9090, Stop, Start [] 8080]" ?c3 ?w3]
    first run sp rc
  show ?thesis by simp
qed

text \<open>
  A child that is still alive at the poll after SIGTERM and SIGKILL: \<open>stop\<close>
  returns false and drops the handle all the same, and the next \<open>start\<close> spawns a
  second child while the first is alive.
\<close>

theorem two_children_after_unconfirmed_stop:
  "case run_calls init_controller stubborn_world [Start [] 8080, Stop, Start [] 8080] of
     (ok, c, w) \<Rightarrow>
       \<not> ok \<and> self_proc c = Some 2 \<and> spawned w = [2, 1] \<and> exited w = {}
       \<and> live_children w = {1, 2} \<and> card (live_children w) = 2"
proof -
  let ?i = "\<lparr>pid = 1, port = 8080, started_at = 0\<rparr>"
  let ?c1 = "\<lparr>self_proc = Some 1, self_info = Some ?i\<rparr>"
  let ?w1 = "stubborn_world\<lparr>next_pid := 2, spawned := [1]\<rparr>"
  let ?w2 = "stubborn_world\<lparr>clock := 5000, next_pid := 2, spawned := [1]\<rparr>"
  let ?c3 = "\<lparr>self_proc = Some 2, self_info = Some \<lparr>pid = 2, port = 8080, started_at = 5000\<rparr>\<rparr>"
  let ?w3 = "stubborn_world\<lparr>clock := 5000, next_pid := 3, spawned := [2, 1]\<rparr>"
  have first: "start init_controller stubborn_world [] 8080 = (Inr (Some ?i), ?c1, ?w1)"
    by (simp add: start_def is_running_def init_controller_def Popen_def wait_for_port_def
          wait_for_port_loop.simps stubborn_world_def obedient_world_def Let_def numeral_2_eq_2)
  have stopped: "stop ?c1 ?w1 = (False, init_controller, ?w2)"
    by (simp add: stop_def terminate_def wait_proc_def kill_def exited_poll_def stubborn_world_def
          obedient_world_def Let_def init_controller_def)
  have third: "start init_controller ?w2 [] 8080
                 = (Inr (Some \<lparr>pid = 2, port = 8080, started_at = 5000\<rparr>), ?c3, ?w3)"
    by (simp add: start_def is_running_def init_controller_def Popen_def wait_for_port_def
          wait_for_port_loop.simps stubborn_world_def obedient_world_def Let_def numeral_2_eq_2
          numeral_3_eq_3)
  have rc: "run_calls init_controller stubborn_world [Start [] 8080, Stop, Start [] 8080]
              = (False, ?c3, ?w3)"
    by (simp only: run_calls.simps first stopped third prod.case simp_thms)
  have lc: "live_children ?w3 = {1, 2}"
    by (auto simp: live_children_def stubborn_world_def obedient_world_def)
  show ?thesis
    unfolding rc prod.case lc by (simp add: stubborn_world_def obedient_world_def)
qed

subsection \<open>start when the port never opens\<close>

text \<open>
  When the controller is not running, the child can be spawned and nothing accepts
  a connection before the deadline, \<open>start\<close> raises the start-up failure after
  sending SIGTERM; the controller keeps the handle of the child it spawned.
\<close>

lemma start_timeout:
  assumes nr: "\<not> is_running c w"
      and sp: "\<not> popen_fails w"
      and closed: "\<forall>t. clock w \<le> t \<and> t < clock w + 15000 \<longrightarrow> \<not> listening w ''127.0.0.1'' prt t"
  shows "\<exists>w2. start c w env prt =
                 (Inl start_failed, c\<lparr>self_proc := Some (next_pid w)\<rparr>,
                  snd (terminate (next_pid w) w2))
              \<and> exited w2 = exited w \<and> exits_on_term w2 = exits_on_term w
              \<and> term_raises w2 = term_raises w"
proof -
  let ?w1 = "w\<lparr>next_pid := Suc (next_pid w), spawned := next_pid w # spawned w\<rparr>"
  obtain ok w2 where wf: "wait_for_port ?w1 ''127.0.0.1'' prt 15000 = (ok, w2)"
    by (cases "wait_for_port ?w1 ''127.0.0.1'' prt 15000")
  have "\<forall>t. clock ?w1 \<le> t \<and> t < clock ?w1 + 15000 \<longrightarrow> \<not> listening ?w1 ''127.0.0.1'' prt t"
    using closed by simp
  then have "fst (wait_for_port_loop ?w1 ''127.0.0.1'' prt (clock ?w1 + 15000)) = False"
    by (rule wait_loop_never)
  with wf have nok: "\<not> ok" by (simp add: wait_for_port_def)
  have "start c w env prt =
          (Inl start_failed, c\<lparr>self_proc := Some (next_pid w)\<rparr>, snd (terminate (next_pid w) w2))"
    using nr sp wf nok by (simp add: start_def Popen_def)
  moreover have "exited w2 = exited w" "exits_on_term w2 = exits_on_term w"
      "term_raises w2 = term_raises w"
    using wait_for_port_fields(2,3,4)[OF wf] by simp_all
  ultimately show ?thesis by blast
qed

text \<open>
  C1: a fresh controller is started on port 8080 in a world where nothing ever
  listens and the child ignores SIGTERM.  \<open>start\<close> raises the start-up failure, but
  the controller is not Idle afterwards: it still holds the handle of the child,
  \<open>is_running\<close> is true, and a further \<open>start\<close> returns \<open>None\<close> as if it were the
  existing info.
\<close>

theorem start_timeout_keeps_handle:
  "case start init_controller deaf_world [] 8080 of
     (r, c', w') \<Rightarrow>
       r = Inl start_failed \<and> self_proc c' = Some 1 \<and> is_running c' w'
       \<and> fst (start c' w' [] 8080) = Inr None"
proof -
  have nr: "\<not> is_running init_controller deaf_world"
    by (simp add: is_running_def init_controller_def)
  have sp: "\<not> popen_fails deaf_world"
    by (simp add: deaf_world_def obedient_world_def)
  have cl: "\<forall>t. clock deaf_world \<le> t \<and> t < clock deaf_world + 15000
              \<longrightarrow> \<not> listening deaf_world ''127.0.0.1'' 8080 t"
    by (simp add: deaf_world_def obedient_world_def)
  from start_timeout[OF nr sp cl, of "[]"] obtain w2 where
    s: "start init_controller deaf_world [] 8080 =
          (Inl start_failed, init_controller\<lparr>self_proc := Some (next_pid deaf_world)\<rparr>,
           snd (terminate (next_pid deaf_world) w2))"
    and ex: "exited w2 = exited deaf_world"
    and eot: "exits_on_term w2 = exits_on_term deaf_world"
    by blast
  have np: "next_pid deaf_world = Suc 0" by (simp add: deaf_world_def obedient_world_def)
  have t: "snd (terminate (Suc 0) w2) = w2"
    using ex eot by (simp add: terminate_def deaf_world_def obedient_world_def)
  let ?c = "init_controller\<lparr>self_proc := Some (Suc 0)\<rparr>"
  have run: "is_running ?c w2"
    using ex by (simp add: is_running_def exited_poll_def deaf_world_def obedient_world_def)
  have again: "fst (start ?c w2 [] 8080) = Inr None"
    using run by (simp add: start_def init_controller_def)
  show ?thesis
    using run again by (simp add: s np t)
qed

section \<open>Properties of the storage backends\<close>

subsection \<open>delete\<close>

lemma accounts_differ: "metadata_account p \<noteq> get_account_name p"
  by (simp add: metadata_account_def get_account_name_def)

text \<open>On both backends a \<open>delete_key\<close> that returned true is followed by an absent key.\<close>

lemma keyring_delete_then_get:
  assumes "KeyringStorage_delete_key ks v p = (True, v')"
  shows "KeyringStorage_get_key ks v' p = None"
  using assms
  by (auto simp: KeyringStorage_delete_key_def KeyringStorage_get_key_def delete_password_def
                 get_password_def
           split: option.splits prod.splits if_splits)

lemma file_delete_then_get:
  assumes "EncryptedFileStorage_delete_key L st fs p = (True, fs')"
  shows "EncryptedFileStorage_get_key L st fs' p = Inr None"
  using assms
  by (auto simp: EncryptedFileStorage_delete_key_def EncryptedFileStorage_get_key_def get_key_try_def
                 remove_file_def path_exists_def
           split: option.splits prod.splits if_splits)

text \<open>The file backend returns true for a provider that has no file.\<close>

lemma file_delete_never_stored:
  assumes "\<not> path_exists fs (get_key_file L st p)"
  shows "EncryptedFileStorage_delete_key L st fs p = (True, fs)"
  using assms by (simp add: EncryptedFileStorage_delete_key_def)

text \<open>The keyring backend returns false whenever the vault has no entry for the key.\<close>

lemma keyring_delete_missing:
  assumes "entries v (service_name ks, get_account_name p) = None"
  shows "fst (KeyringStorage_delete_key ks v p) = False"
  using assms accounts_differ[of p]
  by (auto simp: KeyringStorage_delete_key_def delete_password_def split: option.splits prod.splits)

text \<open>
  C2: on a vault that holds nothing and raises no fault, \<open>delete_key\<close> of the
  keyring backend for the never-stored provider \<open>openai\<close> returns false: the
  \<open>PasswordDeleteError\<close> for the missing key entry reaches the outer handler.  The
  file backend returns true on the corresponding empty directory.
\<close>

theorem keyring_delete_never_stored:
  "KeyringStorage_delete_key (KeyringStorage_init SERVICE_NAME) empty_vault ''openai''
     = (False, empty_vault)
   \<and> EncryptedFileStorage_delete_key demo_libs demo_storage empty_fs ''openai'' = (True, empty_fs)"
  by (simp add: KeyringStorage_delete_key_def delete_password_def empty_vault_def
        EncryptedFileStorage_delete_key_def path_exists_def empty_fs_def)

subsection \<open>Construction of the file backend\<close>

text \<open>
  C3, as the code has it: when the storage directory can be made and the key file
  exists, construction raises \<open>StorageError\<close> if the key file cannot be read, and
  otherwise succeeds with the bytes of the key file as the key, whatever they are.
\<close>

theorem init_key_file:
  assumes "fs_fault fs OpMkdir dir = None"
      and "path_exists fs (path_join L dir ''.encryption_key'')"
  shows "case read_file fs (path_join L dir ''.encryption_key'') of
           Inl e \<Rightarrow> EncryptedFileStorage_init L fs dir = (Inl StorageError, fs)
         | Inr bytes \<Rightarrow>
             EncryptedFileStorage_init L fs dir =
               (Inr \<lparr>storage_dir = dir, key_file = path_join L dir ''.encryption_key'',
                     encryption_key = bytes\<rparr>, fs)"
  using assms
  by (simp add: EncryptedFileStorage_init_def get_or_create_key_def split: sum.splits)

theorem init_key_file_witness:
  "fs_fault locked_fs OpMkdir ''~/.claude-throne'' = None
   \<and> path_exists locked_fs (path_join demo_libs ''~/.claude-throne'' ''.encryption_key'')
   \<and> EncryptedFileStorage_init demo_libs locked_fs ''~/.claude-throne''
       = (Inl StorageError, locked_fs)"
proof -
  have m: "fs_fault locked_fs OpMkdir ''~/.claude-throne'' = None"
    by (simp add: locked_fs_def)
  have e: "path_exists locked_fs (path_join demo_libs ''~/.claude-throne'' ''.encryption_key'')"
    by (simp add: path_exists_def demo_libs_def locked_fs_def)
  have r: "read_file locked_fs (path_join demo_libs ''~/.claude-throne'' ''.encryption_key'')
             = Inl OSError"
    by (simp add: read_file_def locked_fs_def)
  from init_key_file[OF m e] r m e show ?thesis by simp
qed

text \<open>
  A key file whose bytes are not a Fernet key: construction succeeds and keeps the
  bytes as the key; the backend then cannot encrypt, and \<open>store_key\<close> returns false.
\<close>

theorem corrupted_key_file_accepted:
  "case EncryptedFileStorage_init demo_libs
          (empty_fs\<lparr>files := [''~/.claude-throne/.encryption_key'' \<mapsto> ''garbage'']\<rparr>)
          ''~/.claude-throne'' of
     (r, fs') \<Rightarrow>
        r = Inr (demo_storage\<lparr>encryption_key := ''garbage''\<rparr>)
        \<and> encrypt_data demo_libs (demo_storage\<lparr>encryption_key := ''garbage''\<rparr>) ''x'' = Inl ValueError
        \<and> fst (EncryptedFileStorage_store_key demo_libs (demo_storage\<lparr>encryption_key := ''garbage''\<rparr>)
                 fs' ''openai'' ''sk-1'' None) = False"
  by (simp add: EncryptedFileStorage_init_def get_or_create_key_def path_exists_def read_file_def
        empty_fs_def demo_storage_def encrypt_data_def demo_libs_def EncryptedFileStorage_store_key_def)

subsection \<open>store, then get\<close>

text \<open>
  What holds of a store followed by a get.  Keyring backend: after \<open>store_key\<close>
  has returned true, \<open>get_key\<close> (when the vault answers the read) yields the same
  api key, and a non-empty metadata is held, serialised, by the sibling entry.
  File backend: after \<open>store_key\<close> has returned true, \<open>get_key\<close> (when the file can
  be read, and Fernet and json invert what they wrote) yields the same api key, and
  the file decrypts and parses to the record with the api key and the given
  metadata, the empty mapping when none was given.
\<close>

lemma store_get_roundtrip:
  "(KeyringStorage_store_key L ks v p k md = (True, v')
      \<and> kr_fault v' GetPassword (service_name ks) (get_account_name p) = None
    \<longrightarrow> KeyringStorage_get_key ks v' p = Some k
        \<and> (truthy md \<longrightarrow> entries v' (service_name ks, metadata_account p)
                             = Some (json_dumps L (dict_json (or_empty md)))))
   \<and> (EncryptedFileStorage_store_key L st fs p k md = (True, fs')
      \<and> fs_fault fs' OpRead (get_key_file L st p) = None
      \<and> fernet_inverts L (encryption_key st) (json_dumps L (record_json k md))
      \<and> json_inverts L (record_json k md)
    \<longrightarrow> EncryptedFileStorage_get_key L st fs' p = Inr (Some (JStr k))
        \<and> (\<exists>c s. files fs' (get_key_file L st p) = Some c \<and> decrypt_data L st c = Inr s
                  \<and> json_loads L s = Inr (record_json k md)))"
proof (intro conjI impI)
  assume a: "KeyringStorage_store_key L ks v p k md = (True, v')
      \<and> kr_fault v' GetPassword (service_name ks) (get_account_name p) = None"
  then show "KeyringStorage_get_key ks v' p = Some k"
    by (auto simp: KeyringStorage_store_key_def KeyringStorage_get_key_def set_password_def
                   get_password_def Let_def
             split: option.splits prod.splits if_splits)
  assume "truthy md"
  with a accounts_differ[of p]
  show "entries v' (service_name ks, metadata_account p)
          = Some (json_dumps L (dict_json (or_empty md)))"
    by (auto simp: KeyringStorage_store_key_def set_password_def Let_def
             split: option.splits prod.splits if_splits)
next
  assume a: "EncryptedFileStorage_store_key L st fs p k md = (True, fs')
      \<and> fs_fault fs' OpRead (get_key_file L st p) = None
      \<and> fernet_inverts L (encryption_key st) (json_dumps L (record_json k md))
      \<and> json_inverts L (record_json k md)"
  then obtain c where enc: "encrypt_data L st (json_dumps L (record_json k md)) = Inr c"
     and fs': "files fs' (get_key_file L st p) = Some c"
    by (auto simp: EncryptedFileStorage_store_key_def write_file_def
             split: sum.splits option.splits prod.splits)
  from a enc have dec: "decrypt_data L st c = Inr (json_dumps L (record_json k md))"
    by (simp add: fernet_inverts_def encrypt_data_def decrypt_data_def)
  from a have lo: "json_loads L (json_dumps L (record_json k md)) = Inr (record_json k md)"
    by (simp add: json_inverts_def)
  from a fs' dec lo show "EncryptedFileStorage_get_key L st fs' p = Inr (Some (JStr k))"
    by (simp add: EncryptedFileStorage_get_key_def get_key_try_def path_exists_def read_file_def
          dict_get_def record_json_def)
  from fs' dec lo
  show "\<exists>c s. files fs' (get_key_file L st p) = Some c \<and> decrypt_data L st c = Inr s
               \<and> json_loads L s = Inr (record_json k md)"
    by blast
qed

text \<open>
  C4: the vault holds metadata for \<open>openai\<close> from an earlier store, and the key is
  stored again with the empty mapping as metadata.  On the keyring backend
  \<open>store_key\<close> returns true and \<open>get_key\<close> yields the new key, but the sibling
  entry still holds the earlier metadata: what is stored for \<open>openai\<close> is not the
  metadata given.  On the file backend the same store replaces the whole record,
  metadata included.
\<close>

theorem keyring_metadata_not_replaced:
  "(case KeyringStorage_store_key demo_libs (KeyringStorage_init SERVICE_NAME)
          (empty_vault\<lparr>entries := [(SERVICE_NAME, ''openai-metadata'') \<mapsto>
                                     json_dumps demo_libs (dict_json [(''org'', ''acme'')])]\<rparr>)
          ''openai'' ''sk-2'' (Some []) of
     (ok, v') \<Rightarrow>
        ok \<and> KeyringStorage_get_key (KeyringStorage_init SERVICE_NAME) v' ''openai'' = Some ''sk-2''
        \<and> entries v' (SERVICE_NAME, metadata_account ''openai'')
            = Some (json_dumps demo_libs (dict_json [(''org'', ''acme'')]))
        \<and> entries v' (SERVICE_NAME, metadata_account ''openai'')
            \<noteq> Some (json_dumps demo_libs (dict_json [])))
   \<and> (case EncryptedFileStorage_store_key demo_libs demo_storage
            (empty_fs\<lparr>files := [''~/.claude-throne/openai.key'' \<mapsto>
               ''K'' @ json_dumps demo_libs (record_json ''sk-1'' (Some [(''org'', ''acme'')]))]\<rparr>)
            ''openai'' ''sk-2'' (Some []) of
       (ok, fs') \<Rightarrow>
          ok \<and> files fs' (get_key_file demo_libs demo_storage ''openai'')
                 = Some (''K'' @ json_dumps demo_libs (record_json ''sk-2'' (Some []))))"
  by (simp add: KeyringStorage_store_key_def KeyringStorage_get_key_def KeyringStorage_init_def
        set_password_def get_password_def empty_vault_def SERVICE_NAME_def metadata_account_def
        get_account_name_def demo_libs_def dict_json_def demo_record_def record_json_def
        EncryptedFileStorage_store_key_def encrypt_data_def write_file_def chmod_def
        get_key_file_def demo_storage_def empty_fs_def)

subsection \<open>get on a corrupted file\<close>

lemma get_key_never_raises: "\<exists>r. EncryptedFileStorage_get_key L st fs p = Inr r"
  by (simp add: EncryptedFileStorage_get_key_def split: sum.splits)

lemma get_key_undecodable:
  assumes "files fs (get_key_file L st p) = Some c" and "undecodable L st c"
  shows "EncryptedFileStorage_get_key L st fs p = Inr None"
  using assms
  by (auto simp: EncryptedFileStorage_get_key_def get_key_try_def undecodable_def read_file_def
                 path_exists_def
           split: sum.splits option.splits)

text \<open>
  C5, as the code has it: \<open>get_key\<close> of the file backend never raises, whatever the
  file system holds and whatever the libraries do; whenever anything raises inside
  its \<open>try\<close> block it returns \<open>None\<close>; and when the provider's file holds bytes that
  Fernet rejects under the store's key, or whose plaintext json rejects, it returns
  \<open>None\<close>.
\<close>

theorem get_key_absorbs_failures:
  "(\<exists>r. EncryptedFileStorage_get_key L st fs p = Inr r) \<and>
   (get_key_try L st fs p = Inl e \<longrightarrow> EncryptedFileStorage_get_key L st fs p = Inr None) \<and>
   (files fs (get_key_file L st p) = Some c \<and> undecodable L st c
      \<longrightarrow> EncryptedFileStorage_get_key L st fs p = Inr None)"
  using get_key_never_raises[of L st fs p] get_key_undecodable[of fs L st p c]
  by (auto simp: EncryptedFileStorage_get_key_def)

theorem get_key_absorbs_failures_witness:
  "files (empty_fs\<lparr>files := [''~/.claude-throne/openai.key'' \<mapsto> ''Xtampered'']\<rparr>)
      (get_key_file demo_libs demo_storage ''openai'') = Some ''Xtampered''
   \<and> undecodable demo_libs demo_storage ''Xtampered''
   \<and> get_key_try demo_libs demo_storage
        (empty_fs\<lparr>files := [''~/.claude-throne/openai.key'' \<mapsto> ''Xtampered'']\<rparr>) ''openai''
      = Inl InvalidToken
   \<and> EncryptedFileStorage_get_key demo_libs demo_storage
        (empty_fs\<lparr>files := [''~/.claude-throne/openai.key'' \<mapsto> ''Xtampered'']\<rparr>) ''openai''
      = Inr None"
proof -
  let ?fs = "empty_fs\<lparr>files := [''~/.claude-throne/openai.key'' \<mapsto> ''Xtampered'']\<rparr>"
  have f: "files ?fs (get_key_file demo_libs demo_storage ''openai'') = Some ''Xtampered''"
    by (simp add: get_key_file_def demo_storage_def demo_libs_def)
  have u: "undecodable demo_libs demo_storage ''Xtampered''"
    by (simp add: undecodable_def decrypt_data_def demo_libs_def demo_storage_def)
  have t: "get_key_try demo_libs demo_storage ?fs ''openai'' = Inl InvalidToken"
    by (simp add: get_key_try_def path_exists_def read_file_def get_key_file_def decrypt_data_def
          demo_libs_def demo_storage_def empty_fs_def)
  from get_key_absorbs_failures[where L = demo_libs and st = demo_storage and fs = "?fs"
         and p = "''openai''" and e = InvalidToken and c = "''Xtampered''"]
    f u t
  show ?thesis by simp
qed

text \<open>
  A change of the file's bytes that Fernet does not notice.  Fernet reads a token
  through base64 decoding, which passes over bytes outside its alphabet;
  \<open>lenient_libs\<close> does so for the newline.  The key is stored, a newline is
  appended to the provider's file, and \<open>get_key\<close> still returns the key: not every
  change of the bytes gives \<open>None\<close>.
\<close>

theorem appended_newline_still_read:
  "EncryptedFileStorage_store_key lenient_libs demo_storage empty_fs ''openai'' ''sk-1''
      (Some [(''org'', ''acme'')])
     = (True, empty_fs\<lparr>files := [''~/.claude-throne/openai.key'' \<mapsto> ''KR'']\<rparr>)
   \<and> fernet_inverts lenient_libs (encryption_key demo_storage)
        (json_dumps lenient_libs (record_json ''sk-1'' (Some [(''org'', ''acme'')])))
   \<and> json_inverts lenient_libs (record_json ''sk-1'' (Some [(''org'', ''acme'')]))
   \<and> ''KR'' @ [CHR 0x0A] \<noteq> ''KR''
   \<and> EncryptedFileStorage_get_key lenient_libs demo_storage
        (empty_fs\<lparr>files := [''~/.claude-throne/openai.key'' \<mapsto> ''KR'' @ [CHR 0x0A]]\<rparr>) ''openai''
      = Inr (Some (JStr ''sk-1''))
   \<and> EncryptedFileStorage_get_key lenient_libs demo_storage
        (empty_fs\<lparr>files := [''~/.claude-throne/openai.key'' \<mapsto> ''KR'' @ [CHR 0x0A]]\<rparr>) ''openai''
      \<noteq> Inr None"
  by (simp add: EncryptedFileStorage_store_key_def EncryptedFileStorage_get_key_def get_key_try_def
        encrypt_data_def decrypt_data_def write_file_def chmod_def read_file_def path_exists_def
        get_key_file_def dict_get_def fernet_inverts_def json_inverts_def
        lenient_libs_def demo_libs_def demo_storage_def demo_record_def record_json_def empty_fs_def)

subsection \<open>has\_key on a corrupted file\<close>



subsection \<open>The selector\<close>

lemma probe_fails_fallback:
  "probe_fails v \<Longrightarrow> \<exists>v1. get_secret_storage L None v fs pk = use_file_storage L v1 fs"
  by (auto simp: probe_fails_def get_secret_storage_def split: prod.splits option.splits)

lemma cached_instance:
  "get_secret_storage L (Some s) v fs pk = (Inr s, Some s, v, fs)"
  by (simp add: get_secret_storage_def)

text \<open>
  C7, as the code has it: the probe of the credential store fails.  If the
  construction of the encrypted-file backend succeeds, the first call of
  \<open>get_secret_storage\<close> returns that backend, whatever \<open>prefer_keyring\<close> is, and
  caches it; every later call, in any state of the vault and the file system and
  with any \<open>prefer_keyring\<close>, returns that same backend and touches nothing.  If
  the construction raises, the call raises the same exception and caches nothing.
\<close>

theorem selector_falls_back_and_caches:
  assumes "probe_fails v"
  shows "(EncryptedFileStorage_init L fs ''~/.claude-throne'' = (Inr st, fsa) \<longrightarrow>
            (\<exists>v1. get_secret_storage L None v fs pk
                     = (Inr (EncryptedFile st), Some (EncryptedFile st), v1, fsa))
            \<and> (\<forall>v2 fsb pk2.
                  get_secret_storage L (Some (EncryptedFile st)) v2 fsb pk2
                    = (Inr (EncryptedFile st), Some (EncryptedFile st), v2, fsb)))
       \<and> (EncryptedFileStorage_init L fs ''~/.claude-throne'' = (Inl e, fsa) \<longrightarrow>
            (\<exists>v1. get_secret_storage L None v fs pk = (Inl e, None, v1, fsa)))"
proof -
  from probe_fails_fallback[OF assms] obtain v1 where
    "get_secret_storage L None v fs pk = use_file_storage L v1 fs" by blast
  then show ?thesis
    by (auto simp: use_file_storage_def cached_instance)
qed

theorem selector_falls_back_and_caches_witness:
  "probe_fails broken_vault
   \<and> EncryptedFileStorage_init demo_libs empty_fs ''~/.claude-throne''
       = (Inr demo_storage, empty_fs\<lparr>files := [''~/.claude-throne/.encryption_key'' \<mapsto> ''K'']\<rparr>)
   \<and> get_secret_storage demo_libs None broken_vault empty_fs True
       = (Inr (EncryptedFile demo_storage), Some (EncryptedFile demo_storage), broken_vault,
          empty_fs\<lparr>files := [''~/.claude-throne/.encryption_key'' \<mapsto> ''K'']\<rparr>)
   \<and> get_secret_storage demo_libs (Some (EncryptedFile demo_storage)) empty_vault empty_fs True
       = (Inr (EncryptedFile demo_storage), Some (EncryptedFile demo_storage), empty_vault, empty_fs)"
proof -
  let ?fk = "empty_fs\<lparr>files := [''~/.claude-throne/.encryption_key'' \<mapsto> ''K'']\<rparr>"
  have pf: "probe_fails broken_vault"
    by (simp add: probe_fails_def set_password_def broken_vault_def)
  have i: "EncryptedFileStorage_init demo_libs empty_fs ''~/.claude-throne'' = (Inr demo_storage, ?fk)"
    by (simp add: EncryptedFileStorage_init_def get_or_create_key_def path_exists_def write_file_def
          chmod_def empty_fs_def demo_libs_def demo_storage_def)
  have g: "get_secret_storage demo_libs None broken_vault empty_fs True
       = (Inr (EncryptedFile demo_storage), Some (EncryptedFile demo_storage), broken_vault, ?fk)"
    by (simp add: get_secret_storage_def set_password_def broken_vault_def use_file_storage_def i)
  from selector_falls_back_and_caches[OF pf, where L = demo_libs and fs = empty_fs
         and st = demo_storage and fsa = "?fk" and pk = True]
    i g pf
  show ?thesis by simp
qed

text \<open>
  The probe fails and the key file cannot be read: the first call raises
  \<open>StorageError\<close> and caches nothing.  The next call, with the vault working by
  then, probes again and returns the keyring backend.
\<close>

theorem failed_construction_not_cached:
  "probe_fails broken_vault
   \<and> get_secret_storage demo_libs None broken_vault locked_fs True
       = (Inl StorageError, None, broken_vault, locked_fs)
   \<and> fst (get_secret_storage demo_libs None empty_vault locked_fs True)
       = Inr (Keyring (KeyringStorage_init SERVICE_NAME))"
  by (simp add: probe_fails_def get_secret_storage_def set_password_def delete_password_def
        broken_vault_def empty_vault_def use_file_storage_def EncryptedFileStorage_init_def
        get_or_create_key_def path_exists_def read_file_def locked_fs_def demo_libs_def)

end
